theory Spec2Isabelle
  imports Complex_Main
begin

section \<open>Discrete damageable springs in series: the homogeneous validation run\<close>

text \<open>
  The development follows \<^verbatim>\<open>practice/discrete_atk_homogeneous.py\<close>.
  Python floats are modelled by \<^typ>\<open>real\<close>: the embedding keeps the formulas, the
  branch conditions and the order of the operations of the source, and abstracts from
  IEEE rounding; the homogeneous state is given in double arithmetic as well, since
  rounding decides whether its two branches meet. Degrees of freedom are lists: one
  damage value per cell (DG0 on the unit interval cut into \<open>N\<close> cells) and one
  displacement per node (\<open>N + 1\<close> nodes).
\<close>

subsection \<open>Material parameters and state\<close>

text \<open>The entries of \<^verbatim>\<open>parameters["model"]\<close> that the program reads.\<close>

record model_par =
  par_mu :: real
  par_w1 :: real
  par_k_res :: real
  par_k :: real
  par_N :: nat

text \<open>\<^verbatim>\<open>state = {"u": u, "alpha": alpha}\<close>, each field by its vector of values.\<close>

record state =
  st_u :: "real list"
  st_alpha :: "real list"

text \<open>
  The values that \<^verbatim>\<open>discrete_atk(arg_N)\<close> writes into
  \<^verbatim>\<open>parameters["model"]\<close> before anything reads them.
\<close>

definition discrete_atk_model :: "nat \<Rightarrow> model_par" where
  "discrete_atk_model arg_N =
     \<lparr>par_mu = 1, par_w1 = 2, par_k_res = 1 / 10 ^ 4, par_k = 4, par_N = arg_N\<rparr>"

subsection \<open>The closed-form homogeneous state\<close>

definition critical_load :: "model_par \<Rightarrow> real" where
  "critical_load matpar =
     sqrt (8 * par_w1 matpar / (par_mu matpar * par_k matpar) / 4)"

text \<open>
  The two branches of \<^verbatim>\<open>_homogeneous_state\<close>: the bodies of its \<^verbatim>\<open>if\<close>
  and of its \<^verbatim>\<open>else\<close>, each giving the pair \<^verbatim>\<open>(_alphah, _uh)\<close>.
\<close>

definition elastic_branch :: "real \<Rightarrow> model_par \<Rightarrow> real list \<times> real list" where
  "elastic_branch t matpar =
     (let alphah = map (\<lambda>i. 0) [0..<par_N matpar];
          uh = map (\<lambda>i. real i * t / real (par_N matpar)) [0..<par_N matpar + 1]
      in (alphah, uh))"

definition damaging_branch :: "real \<Rightarrow> real \<Rightarrow> model_par \<Rightarrow> real list \<times> real list" where
  "damaging_branch tc t matpar =
     (let a = (t / tc - 1) / (par_k matpar - 1);
          alphah = map (\<lambda>i. a) [0..<par_N matpar];
          e = t / real (par_N matpar);
          uh = map (\<lambda>i. e * real i) [0..<par_N matpar + 1]
      in (alphah, uh))"

text \<open>
  \<^verbatim>\<open>_homogeneous_state(state, t, matpar)\<close> is a closure: the critical load is
  computed from the enclosing \<^verbatim>\<open>parameters["model"]\<close> (first argument here),
  everything else from \<^verbatim>\<open>matpar\<close>. The two slice assignments overwrite the
  whole vectors.
\<close>

definition homogeneous_state :: "model_par \<Rightarrow> state \<Rightarrow> real \<Rightarrow> model_par \<Rightarrow> state" where
  "homogeneous_state parameters_model st t matpar =
     (let tc = critical_load parameters_model;
          (alphah, uh) = (if t \<le> tc then elastic_branch t matpar
                          else damaging_branch tc t matpar)
      in st\<lparr>st_alpha := alphah, st_u := uh\<rparr>)"

subsection \<open>The homogeneous state in double arithmetic\<close>








subsection \<open>Vector operations of the linear-algebra backend\<close>

text \<open>
  \<^verbatim>\<open>y.axpy(a, x)\<close> is \<open>y \<leftarrow> y + a x\<close>, \<^verbatim>\<open>x.dot(y)\<close> the scalar product,
  \<^verbatim>\<open>x.norm()\<close> the 2-norm, and \<^verbatim>\<open>x.max()\<close> the pair of the position and the value
  of the largest entry; of an empty vector it reports the smallest representable real.
  One process owns the whole vector, so every \<^verbatim>\<open>allreduce\<close> and ghost update is the
  identity.
\<close>

definition vec_axpy :: "real \<Rightarrow> real list \<Rightarrow> real list \<Rightarrow> real list" where
  "vec_axpy a x y = map2 (\<lambda>yi xi. yi + a * xi) y x"

definition vec_dot :: "real list \<Rightarrow> real list \<Rightarrow> real" where
  "vec_dot x y = sum_list (map2 (*) x y)"

definition vec_norm :: "real list \<Rightarrow> real" where
  "vec_norm x = sqrt (vec_dot x x)"

definition PETSC_MIN_REAL :: real where
  "PETSC_MIN_REAL = - ((2 - 1 / 2 ^ 52) * 2 ^ 1023)"

definition vec_max :: "real list \<Rightarrow> real" where
  "vec_max x = (case x of [] \<Rightarrow> PETSC_MIN_REAL | x0 # xs \<Rightarrow> fold max xs x0)"

text \<open>
  The max-norm (L-infinity norm) of a vector as the specification words it: the largest
  absolute value of a component.
\<close>

definition max_norm :: "real list \<Rightarrow> real" where
  "max_norm x = fold max (map abs x) 0"

subsection \<open>Alternate minimisation\<close>

text \<open>\<^verbatim>\<open>solver_parameters["damage_elasticity"]\<close>.\<close>

record am_config =
  cfg_max_it :: int
  cfg_criterion :: string
  cfg_alpha_rtol :: real

text \<open>\<^verbatim>\<open>self.data\<close>: one list per diagnostic, one entry per iteration.\<close>

record am_data =
  dat_iteration :: "nat list"
  dat_error_alpha_L2 :: "real list"
  dat_error_alpha_H1 :: "real list"
  dat_F_norm :: "real list"
  dat_error_alpha_max :: "real list"
  dat_error_residual_F :: "real list"
  dat_solver_alpha_reason :: "int list"
  dat_solver_alpha_it :: "int list"
  dat_solver_u_reason :: "int list"
  dat_solver_u_it :: "int list"
  dat_total_energy :: "real list"

definition empty_data :: am_data where
  "empty_data =
     \<lparr>dat_iteration = [], dat_error_alpha_L2 = [], dat_error_alpha_H1 = [], dat_F_norm = [],
      dat_error_alpha_max = [], dat_error_residual_F = [], dat_solver_alpha_reason = [],
      dat_solver_alpha_it = [], dat_solver_u_reason = [], dat_solver_u_it = [],
      dat_total_energy = []\<rparr>"

text \<open>Every one of the eleven diagnostic lists has \<open>n\<close> entries.\<close>

definition all_lists_length :: "am_data \<Rightarrow> nat \<Rightarrow> bool" where
  "all_lists_length d n \<longleftrightarrow>
     length (dat_iteration d) = n \<and> length (dat_error_alpha_L2 d) = n \<and>
     length (dat_error_alpha_H1 d) = n \<and> length (dat_F_norm d) = n \<and>
     length (dat_error_alpha_max d) = n \<and> length (dat_error_residual_F d) = n \<and>
     length (dat_solver_alpha_reason d) = n \<and> length (dat_solver_alpha_it d) = n \<and>
     length (dat_solver_u_reason d) = n \<and> length (dat_solver_u_it d) = n \<and>
     length (dat_total_energy d) = n"

text \<open>
  The \<^verbatim>\<open>_AlternateMinimisation\<close> object: the fields it mutates, the bounds, and the
  internal state \<open>'w\<close> of its two nonlinear solvers.
\<close>

record 'w am_object =
  am_u :: "real list"
  am_alpha :: "real list"
  am_alpha_old :: "real list"
  am_alpha_lb :: "real list"
  am_alpha_ub :: "real list"
  am_snes :: 'w
  am_dat :: am_data

text \<open>
  What the loop calls and does not define: the two \<^verbatim>\<open>SNESSolver.solve\<close> calls (each
  returns the new field, its iteration count and reason, and the solvers' new internal
  state), the norms of \<^verbatim>\<open>irrevolutions.utils\<close>, and the assembly of forms.
\<close>

record 'w am_env =
  elasticity_solve :: "'w \<Rightarrow> real list \<Rightarrow> real list \<Rightarrow> real list \<times> int \<times> int \<times> 'w"
  damage_solve ::
    "'w \<Rightarrow> real list \<Rightarrow> real list \<Rightarrow> real list \<Rightarrow> real list \<Rightarrow> real list \<times> int \<times> int \<times> 'w"
  norm_H1 :: "real list \<Rightarrow> real"
  norm_L2 :: "real list \<Rightarrow> real"
  assemble_F :: "real list \<Rightarrow> real list \<Rightarrow> real list list"
  assemble_total_energy :: "real list \<Rightarrow> real list \<Rightarrow> real"
  assemble_residual_F :: "real list \<Rightarrow> real list \<Rightarrow> real list"

datatype am_error = RuntimeError nat real | UnboundLocalError

text \<open>The damage increment \<^verbatim>\<open>alpha_diff\<close>: a copy of \<open>alpha\<close>, then \<^verbatim>\<open>axpy(-1, alpha_old)\<close>.\<close>

definition alpha_increment :: "real list \<Rightarrow> real list \<Rightarrow> real list" where
  "alpha_increment alpha alpha_old = vec_axpy (- 1) alpha_old alpha"

text \<open>
  The body of the \<^verbatim>\<open>for\<close> loop up to the stopping test: both solves, the metrics,
  \<open>alpha_old \<leftarrow> alpha\<close> and the eleven appends. It returns the object together with
  the two locals the stopping test and the error message read.
\<close>

definition am_iteration ::
  "'w am_env \<Rightarrow> nat \<Rightarrow> 'w am_object \<Rightarrow> 'w am_object \<times> real \<times> real" where
  "am_iteration env iteration obj =
     (let (u1, solver_u_it, solver_u_reason, s1) =
            elasticity_solve env (am_snes obj) (am_u obj) (am_alpha obj);
          (alpha1, solver_alpha_it, solver_alpha_reason, s2) =
            damage_solve env s1 u1 (am_alpha obj) (am_alpha_lb obj) (am_alpha_ub obj);
          alpha_diff = alpha_increment alpha1 (am_alpha_old obj);
          error_alpha_H1 = norm_H1 env alpha_diff;
          error_alpha_L2 = norm_L2 env alpha_diff;
          Fnorm = sqrt (sum_list (map vec_norm (assemble_F env u1 alpha1)));
          error_alpha_max = vec_max alpha_diff;
          total_energy_int = assemble_total_energy env u1 alpha1;
          residual_F = assemble_residual_F env u1 alpha1;
          error_residual_F = sqrt (vec_dot residual_F residual_F);
          d = am_dat obj;
          d' = d\<lparr>dat_iteration := dat_iteration d @ [iteration],
                 dat_error_alpha_L2 := dat_error_alpha_L2 d @ [error_alpha_L2],
                 dat_error_alpha_H1 := dat_error_alpha_H1 d @ [error_alpha_H1],
                 dat_F_norm := dat_F_norm d @ [Fnorm],
                 dat_error_alpha_max := dat_error_alpha_max d @ [error_alpha_max],
                 dat_error_residual_F := dat_error_residual_F d @ [error_residual_F],
                 dat_solver_alpha_it := dat_solver_alpha_it d @ [solver_alpha_it],
                 dat_solver_alpha_reason := dat_solver_alpha_reason d @ [solver_alpha_reason],
                 dat_solver_u_reason := dat_solver_u_reason d @ [solver_u_reason],
                 dat_solver_u_it := dat_solver_u_it d @ [solver_u_it],
                 dat_total_energy := dat_total_energy d @ [total_energy_int]\<rparr>
      in (obj\<lparr>am_u := u1, am_alpha := alpha1, am_alpha_old := alpha1, am_snes := s2,
               am_dat := d'\<rparr>,
          error_residual_F, error_alpha_H1))"

text \<open>
  The \<^verbatim>\<open>for ... else\<close> loop over the remaining iteration indices. \<open>last_locals\<close> holds
  \<^verbatim>\<open>iteration\<close> and \<^verbatim>\<open>error_alpha_H1\<close> as the previous pass left them (nothing
  before the first pass). A \<^verbatim>\<open>break\<close> returns; running out of indices reaches the
  \<^verbatim>\<open>else\<close>, whose message formats the two locals, and reading them unbound is an
  error of its own.
\<close>

fun am_loop ::
  "'w am_env \<Rightarrow> am_config \<Rightarrow> nat list \<Rightarrow> (nat \<times> real) option \<Rightarrow> 'w am_object
     \<Rightarrow> (am_error \<times> 'w am_object) + 'w am_object" where
  "am_loop env cfg [] last_locals obj =
     (case last_locals of
        None \<Rightarrow> Inl (UnboundLocalError, obj)
      | Some (iteration, error_alpha_H1) \<Rightarrow> Inl (RuntimeError iteration error_alpha_H1, obj))"
| "am_loop env cfg (iteration # rest) last_locals obj =
     (let (obj', error_residual_F, error_alpha_H1) = am_iteration env iteration obj in
      if cfg_criterion cfg = ''residual_u'' \<and> error_residual_F \<le> cfg_alpha_rtol cfg
      then Inr obj'
      else if cfg_criterion cfg = ''alpha_H1'' \<and> error_alpha_H1 \<le> cfg_alpha_rtol cfg
      then Inr obj'
      else am_loop env cfg rest (Some (iteration, error_alpha_H1)) obj')"

text \<open>\<^verbatim>\<open>_AlternateMinimisation.solve\<close>: fresh diagnostics, then the loop over \<^verbatim>\<open>range(max_it)\<close>.\<close>

definition solve ::
  "'w am_env \<Rightarrow> am_config \<Rightarrow> 'w am_object \<Rightarrow> (am_error \<times> 'w am_object) + 'w am_object" where
  "solve env cfg obj =
     am_loop env cfg [0..<nat (cfg_max_it cfg)] None (obj\<lparr>am_dat := empty_data\<rparr>)"

subsection \<open>The load-stepping driver\<close>

text \<open>
  \<^verbatim>\<open>np.linspace(start, stop, num)\<close> with its default closed end: \<open>num\<close> samples with
  step \<open>(stop - start) / (num - 1)\<close>, the last one set to \<open>stop\<close>.
\<close>

definition linspace :: "real \<Rightarrow> real \<Rightarrow> nat \<Rightarrow> real list" where
  "linspace start stop num =
     (if num = 0 then []
      else if num = 1 then [start]
      else (map (\<lambda>i. real i * ((stop - start) / real (num - 1)) + start) [0..<num])
             [num - 1 := stop])"

text \<open>\<^verbatim>\<open>history_data\<close>: the eleven lists of the run, by key.\<close>

record ('cd, 'eg) history_data =
  hist_load :: "real list"
  hist_elastic_energy :: "real list"
  hist_fracture_energy :: "real list"
  hist_total_energy :: "real list"
  hist_cone_data :: "'cd list"
  hist_eigs :: "'eg list"
  hist_cone_stable :: "bool list"
  hist_non_bifurcation :: "bool list"
  hist_F :: "real list"
  hist_alpha_t :: "real list list"
  hist_u_t :: "real list list"

definition empty_history :: "('cd, 'eg) history_data" where
  "empty_history =
     \<lparr>hist_load = [], hist_elastic_energy = [], hist_fracture_energy = [],
      hist_total_energy = [], hist_cone_data = [], hist_eigs = [], hist_cone_stable = [],
      hist_non_bifurcation = [], hist_F = [], hist_alpha_t = [], hist_u_t = []\<rparr>"

text \<open>Every one of the eleven lists of the history has \<open>n\<close> entries.\<close>

definition history_lengths :: "('cd, 'eg) history_data \<Rightarrow> nat \<Rightarrow> bool" where
  "history_lengths h n \<longleftrightarrow>
     length (hist_load h) = n \<and> length (hist_elastic_energy h) = n \<and>
     length (hist_fracture_energy h) = n \<and> length (hist_total_energy h) = n \<and>
     length (hist_cone_data h) = n \<and> length (hist_eigs h) = n \<and>
     length (hist_cone_stable h) = n \<and> length (hist_non_bifurcation h) = n \<and>
     length (hist_F h) = n \<and> length (hist_alpha_t h) = n \<and> length (hist_u_t h) = n"

text \<open>
  What the driver calls and does not define: \<^verbatim>\<open>BifurcationSolver\<close> and
  \<^verbatim>\<open>StabilitySolver\<close> (with their joint internal state \<open>'w\<close>, their \<^verbatim>\<open>data\<close>
  of types \<open>'eg\<close> and \<open>'cd\<close>), and the assembly of the three scalar forms. The
  solvers take the state and the lower bound as inputs and return a verdict and their
  own new internal state, as \<^verbatim>\<open>is_stable = stability.solve(alpha_lb)\<close> and
  \<^verbatim>\<open>stable = cone.my_solve(alpha_lb)\<close> use them.
\<close>

record ('w, 'cd, 'eg) oracles =
  stability_solve :: "'w \<Rightarrow> state \<Rightarrow> real list \<Rightarrow> bool \<times> 'w"
  stability_data_eigs :: "'w \<Rightarrow> 'eg"
  stability_data_stable :: "'w \<Rightarrow> bool"
  cone_my_solve :: "'w \<Rightarrow> state \<Rightarrow> real list \<Rightarrow> bool \<times> 'w"
  cone_data :: "'w \<Rightarrow> 'cd"
  assemble_fracture_energy :: "state \<Rightarrow> real"
  assemble_elastic_energy :: "state \<Rightarrow> real"
  assemble_stress :: "state \<Rightarrow> real"

text \<open>The calls into solvers that the driver makes, in the order it makes them.\<close>

datatype call =
    Call_AM_init
  | Call_AM_solve
  | Call_homogeneous_state real
  | Call_stability_solve
  | Call_stability_is_elastic
  | Call_stability_get_inertia
  | Call_cone_my_solve

text \<open>The variables of \<^verbatim>\<open>discrete_atk\<close> that the load loop reads or writes.\<close>

record ('w, 'cd, 'eg) driver =
  drv_state :: state
  drv_alpha_lb :: "real list"
  drv_alpha_ub :: "real list"
  drv_solvers :: 'w
  drv_history :: "('cd, 'eg) history_data"
  drv_check_stability :: "bool list"
  drv_calls :: "call list"

text \<open>
  One pass of \<^verbatim>\<open>for i_t, t in enumerate(loads)\<close>. The index \<^verbatim>\<open>i_t\<close> only names
  the figure files; printing, plotting and file output leave the variables alone.
\<close>

definition load_step ::
  "('w, 'cd, 'eg) oracles \<Rightarrow> model_par \<Rightarrow> ('w, 'cd, 'eg) driver \<Rightarrow> real
     \<Rightarrow> ('w, 'cd, 'eg) driver" where
  "load_step orc parameters_model d t =
     (let st = homogeneous_state parameters_model (drv_state d) t parameters_model;
          (is_stable, w1) = stability_solve orc (drv_solvers d) st (drv_alpha_lb d);
          (stable, w2) = cone_my_solve orc w1 st (drv_alpha_lb d);
          fracture_energy = assemble_fracture_energy orc st;
          elastic_energy = assemble_elastic_energy orc st;
          F = assemble_stress orc st;
          h = drv_history d;
          h' = h\<lparr>hist_load := hist_load h @ [t],
                 hist_fracture_energy := hist_fracture_energy h @ [fracture_energy],
                 hist_elastic_energy := hist_elastic_energy h @ [elastic_energy],
                 hist_total_energy := hist_total_energy h @ [elastic_energy + fracture_energy],
                 hist_cone_data := hist_cone_data h @ [cone_data orc w2],
                 hist_eigs := hist_eigs h @ [stability_data_eigs orc w2],
                 hist_non_bifurcation := hist_non_bifurcation h @ [\<not> stability_data_stable orc w2],
                 hist_cone_stable := hist_cone_stable h @ [stable],
                 hist_F := hist_F h @ [F],
                 hist_alpha_t := hist_alpha_t h @ [st_alpha st],
                 hist_u_t := hist_u_t h @ [st_u st]\<rparr>
      in d\<lparr>drv_state := st, drv_solvers := w2, drv_history := h',
            drv_check_stability := drv_check_stability d @ [is_stable],
            drv_calls := drv_calls d @
              [Call_homogeneous_state t, Call_stability_solve, Call_stability_is_elastic,
               Call_stability_get_inertia, Call_cone_my_solve]\<rparr>)"

fun run_loads ::
  "('w, 'cd, 'eg) oracles \<Rightarrow> model_par \<Rightarrow> ('w, 'cd, 'eg) driver \<Rightarrow> real list
     \<Rightarrow> ('w, 'cd, 'eg) driver" where
  "run_loads orc parameters_model d [] = d"
| "run_loads orc parameters_model d (t # ts) =
     run_loads orc parameters_model (load_step orc parameters_model d t) ts"

text \<open>
  The variables as the set-up of \<^verbatim>\<open>discrete_atk\<close> leaves them before the load loop:
  fresh fields are zero, \<^verbatim>\<open>alpha_lb\<close> is interpolated to zeros and \<^verbatim>\<open>alpha_ub\<close> to
  ones, the \<^verbatim>\<open>_AlternateMinimisation\<close> object has been constructed and dropped, and the
  two stability solvers have been constructed (internal state \<open>w0\<close>).
\<close>

definition initial_driver :: "model_par \<Rightarrow> 'w \<Rightarrow> ('w, 'cd, 'eg) driver" where
  "initial_driver parameters_model w0 =
     \<lparr>drv_state = \<lparr>st_u = replicate (par_N parameters_model + 1) 0,
                    st_alpha = replicate (par_N parameters_model) 0\<rparr>,
      drv_alpha_lb = replicate (par_N parameters_model) 0,
      drv_alpha_ub = replicate (par_N parameters_model) 1,
      drv_solvers = w0,
      drv_history = empty_history,
      drv_check_stability = [],
      drv_calls = [Call_AM_init]\<rparr>"

text \<open>
  \<^verbatim>\<open>discrete_atk(arg_N)\<close>. \<^verbatim>\<open>loading.min\<close> comes from the parameter file;
  \<^verbatim>\<open>loading.max\<close> is set to \<open>k\<close> and \<^verbatim>\<open>loading.steps\<close> to 30.
\<close>

definition discrete_atk_loads :: "real \<Rightarrow> nat \<Rightarrow> real list" where
  "discrete_atk_loads load_min arg_N =
     linspace load_min (par_k (discrete_atk_model arg_N)) 30"

definition discrete_atk ::
  "('w, 'cd, 'eg) oracles \<Rightarrow> real \<Rightarrow> 'w \<Rightarrow> nat \<Rightarrow> ('w, 'cd, 'eg) driver" where
  "discrete_atk orc load_min w0 arg_N =
     run_loads orc (discrete_atk_model arg_N)
       (initial_driver (discrete_atk_model arg_N) w0) (discrete_atk_loads load_min arg_N)"

subsection \<open>Sample collaborators\<close>

text \<open>
  Concrete collaborators on which the theorems are instantiated. The sample damage solver
  replays a script of damage fields, one per call, counting its calls; the sample
  stability solvers accept every state; the sample energies are plain sums over the
  degrees of freedom.
\<close>

definition sample_env :: "real list list \<Rightarrow> (real list \<Rightarrow> real) \<Rightarrow> real list \<Rightarrow> nat am_env" where
  "sample_env script h1 resid =
     \<lparr>elasticity_solve = (\<lambda>w u alpha. (u, 1, 2, w)),
      damage_solve = (\<lambda>w u alpha lb ub.
         ((case drop w script of [] \<Rightarrow> alpha | a # _ \<Rightarrow> a), 1, 2, Suc w)),
      norm_H1 = h1,
      norm_L2 = vec_norm,
      assemble_F = (\<lambda>u alpha. [u, alpha]),
      assemble_total_energy = (\<lambda>u alpha. vec_dot u u + sum_list alpha),
      assemble_residual_F = (\<lambda>u alpha. resid)\<rparr>"

definition sample_object :: "nat \<Rightarrow> nat am_object" where
  "sample_object n =
     \<lparr>am_u = replicate (n + 1) 0, am_alpha = replicate n 0, am_alpha_old = replicate n 0,
      am_alpha_lb = replicate n 0, am_alpha_ub = replicate n 1, am_snes = 0,
      am_dat = empty_data\<rparr>"

definition sample_oracles :: "(unit, unit, unit) oracles" where
  "sample_oracles =
     \<lparr>stability_solve = (\<lambda>w st lb. (True, w)),
      stability_data_eigs = (\<lambda>w. ()),
      stability_data_stable = (\<lambda>w. True),
      cone_my_solve = (\<lambda>w st lb. (True, w)),
      cone_data = (\<lambda>w. ()),
      assemble_fracture_energy = (\<lambda>st. sum_list (st_alpha st)),
      assemble_elastic_energy = (\<lambda>st. vec_dot (st_u st) (st_u st)),
      assemble_stress = (\<lambda>st. sum_list (st_u st))\<rparr>"

section \<open>Properties\<close>

subsection \<open>The critical load of the run\<close>

lemma critical_load_discrete_atk_model: "critical_load (discrete_atk_model n) = 1"
  by (simp add: critical_load_def discrete_atk_model_def)

lemma upt_2: "[0..<2] = [0, Suc 0]"
  by (simp add: upt_rec)

lemma upt_3: "[0..<3] = [0, Suc 0, 2]"
  by (simp add: upt_rec)

text \<open>
  Claim C3. With \<open>N = 2\<close>, \<open>k = 4\<close>, \<open>w1 = 2\<close>, \<open>mu = 1\<close> the critical load is
  exactly 1; at load \<open>1/2\<close> the homogeneous state has damage 0 in both cells and
  displacements \<open>[0, 1/4, 1/2]\<close>; at load 2 it has damage \<open>1/3\<close> in both cells and
  displacements \<open>[0, 1, 2]\<close>.
\<close>

theorem closed_form_cross_check:
  "critical_load (discrete_atk_model 2) = 1
   \<and> st_alpha (homogeneous_state (discrete_atk_model 2) st (1/2) (discrete_atk_model 2)) = [0, 0]
   \<and> st_u (homogeneous_state (discrete_atk_model 2) st (1/2) (discrete_atk_model 2)) = [0, 1/4, 1/2]
   \<and> st_alpha (homogeneous_state (discrete_atk_model 2) st 2 (discrete_atk_model 2)) = [1/3, 1/3]
   \<and> st_u (homogeneous_state (discrete_atk_model 2) st 2 (discrete_atk_model 2)) = [0, 1, 2]"
  by (simp add: homogeneous_state_def elastic_branch_def damaging_branch_def
      critical_load_discrete_atk_model Let_def)
    (simp add: discrete_atk_model_def upt_2 upt_3)

subsection \<open>The alternate minimisation loop\<close>

text \<open>One pass of the loop appends one entry to every diagnostic list.\<close>

lemma am_iteration_data:
  assumes "am_iteration env it obj = (obj', eF, eH1)"
  shows "dat_iteration (am_dat obj') = dat_iteration (am_dat obj) @ [it]"
    and "dat_error_alpha_H1 (am_dat obj') = dat_error_alpha_H1 (am_dat obj) @ [eH1]"
    and "dat_error_residual_F (am_dat obj') = dat_error_residual_F (am_dat obj) @ [eF]"
    and "all_lists_length (am_dat obj) n \<Longrightarrow> all_lists_length (am_dat obj') (Suc n)"
  using assms
  by (auto simp: am_iteration_def all_lists_length_def Let_def split: prod.splits)

text \<open>A return from the loop is a \<^verbatim>\<open>break\<close>, taken on the selected metric just recorded.\<close>

lemma am_loop_returns:
  assumes "am_loop env cfg its last_locals obj = Inr obj'"
  shows "(cfg_criterion cfg = ''residual_u'' \<longrightarrow>
            dat_error_residual_F (am_dat obj') \<noteq> [] \<and>
            last (dat_error_residual_F (am_dat obj')) \<le> cfg_alpha_rtol cfg)
       \<and> (cfg_criterion cfg = ''alpha_H1'' \<longrightarrow>
            dat_error_alpha_H1 (am_dat obj') \<noteq> [] \<and>
            last (dat_error_alpha_H1 (am_dat obj')) \<le> cfg_alpha_rtol cfg)"
  using assms
proof (induction its arbitrary: last_locals obj)
  case Nil
  then show ?case by (simp split: option.splits prod.splits)
next
  case (Cons it rest)
  obtain o1 eF eH1 where it: "am_iteration env it obj = (o1, eF, eH1)"
    by (metis prod_cases3)
  note dat = am_iteration_data(2,3)[OF it]
  show ?case
  proof (cases "cfg_criterion cfg = ''residual_u'' \<and> eF \<le> cfg_alpha_rtol cfg")
    case True
    with Cons.prems it have "obj' = o1" by simp
    with True dat show ?thesis by simp
  next
    case nres: False
    show ?thesis
    proof (cases "cfg_criterion cfg = ''alpha_H1'' \<and> eH1 \<le> cfg_alpha_rtol cfg")
      case True
      with Cons.prems it nres have "obj' = o1" by auto
      with True dat show ?thesis by simp
    next
      case False
      with Cons.prems it nres
      have "am_loop env cfg rest (Some (it, eH1)) o1 = Inr obj'" by auto
      then show ?thesis by (rule Cons.IH)
    qed
  qed
qed

text \<open>
  Running out of indices: every index has left one entry in every list, and the error
  holds the last index and the last H1 error.
\<close>

lemma am_loop_raises:
  assumes "am_loop env cfg its last_locals obj = Inl (e, obj')"
    and "all_lists_length (am_dat obj) n"
  shows "all_lists_length (am_dat obj') (n + length its)
       \<and> dat_iteration (am_dat obj') = dat_iteration (am_dat obj) @ its
       \<and> e = (if its = []
              then (case last_locals of None \<Rightarrow> UnboundLocalError
                    | Some (i, h) \<Rightarrow> RuntimeError i h)
              else RuntimeError (last its) (last (dat_error_alpha_H1 (am_dat obj'))))"
  using assms
proof (induction its arbitrary: last_locals obj n)
  case Nil
  then show ?case by (auto split: option.splits)
next
  case (Cons it rest)
  obtain o1 eF eH1 where it: "am_iteration env it obj = (o1, eF, eH1)"
    by (metis prod_cases3)
  note dat = am_iteration_data[OF it]
  from Cons.prems(1) it
  have rec: "am_loop env cfg rest (Some (it, eH1)) o1 = Inl (e, obj')"
    by (auto split: if_splits)
  have len: "all_lists_length (am_dat o1) (Suc n)"
    using dat(4) Cons.prems(2) by simp
  note ih = Cons.IH[OF rec len]
  show ?case
  proof (cases "rest = []")
    case True
    with rec have "obj' = o1" "e = RuntimeError it eH1" by simp_all
    with True len dat show ?thesis by simp
  next
    case False
    with ih dat show ?thesis by simp
  qed
qed

lemma solve_raises:
  assumes "1 \<le> cfg_max_it cfg" and "solve env cfg obj = Inl (e, obj')"
  shows "e = RuntimeError (nat (cfg_max_it cfg) - 1) (last (dat_error_alpha_H1 (am_dat obj')))
       \<and> all_lists_length (am_dat obj') (nat (cfg_max_it cfg))
       \<and> dat_iteration (am_dat obj') = [0..<nat (cfg_max_it cfg)]"
proof -
  have e0: "all_lists_length (am_dat (obj\<lparr>am_dat := empty_data\<rparr>)) 0"
    by (simp add: all_lists_length_def empty_data_def)
  from assms(1) have ne: "[0..<nat (cfg_max_it cfg)] \<noteq> []" by simp
  from assms(1) have l: "last [0..<nat (cfg_max_it cfg)] = nat (cfg_max_it cfg) - 1"
    by (metis ne last_upt upt_eq_Nil_conv not_le)
  from am_loop_raises[OF assms(2)[unfolded solve_def] e0] ne l
  show ?thesis by (simp add: empty_data_def)
qed

text \<open>Evaluation of the loop on the sample collaborators.\<close>

lemmas sample_eval = solve_def sample_env_def sample_object_def am_iteration_def
  alpha_increment_def vec_axpy_def vec_dot_def vec_norm_def vec_max_def
  empty_data_def Let_def

lemma sqrt_9_100: "sqrt (9/100) = 3/10"
  by (rule real_sqrt_unique) (simp_all add: power2_eq_square)

lemma sqrt_half_gt: "\<not> sqrt (1/2) * 5 \<le> 2"
proof -
  have "1/2 < sqrt (1/2)" by (rule real_less_rsqrt) (simp add: power2_eq_square)
  then show ?thesis by simp
qed

text \<open>
  Claim C1. With criterion \<open>residual_u\<close> or \<open>alpha_H1\<close>, when \<open>solve\<close> returns
  without raising, the last recorded value of the selected metric (\<open>error_residual_F\<close>,
  respectively \<open>error_alpha_H1\<close>) is at most \<open>alpha_rtol\<close>. Nothing bounds the other
  three metrics: for each criterion there is a returning run in which all three exceed
  the tolerance.
\<close>

theorem stopping_criterion_satisfaction:
  fixes env :: "'w am_env"
  shows
  "((cfg_criterion cfg = ''residual_u'' \<or> cfg_criterion cfg = ''alpha_H1'') \<and>
      solve env cfg obj = Inr obj' \<longrightarrow>
      (cfg_criterion cfg = ''residual_u'' \<longrightarrow>
         dat_error_residual_F (am_dat obj') \<noteq> [] \<and>
         last (dat_error_residual_F (am_dat obj')) \<le> cfg_alpha_rtol cfg) \<and>
      (cfg_criterion cfg = ''alpha_H1'' \<longrightarrow>
         dat_error_alpha_H1 (am_dat obj') \<noteq> [] \<and>
         last (dat_error_alpha_H1 (am_dat obj')) \<le> cfg_alpha_rtol cfg))
   \<and> (\<exists>(env0 :: nat am_env) cfg0 obj0 obj1.
         cfg_criterion cfg0 = ''residual_u'' \<and> solve env0 cfg0 obj0 = Inr obj1 \<and>
         cfg_alpha_rtol cfg0 < last (dat_error_alpha_L2 (am_dat obj1)) \<and>
         cfg_alpha_rtol cfg0 < last (dat_error_alpha_H1 (am_dat obj1)) \<and>
         cfg_alpha_rtol cfg0 < last (dat_error_alpha_max (am_dat obj1)))
   \<and> (\<exists>(env0 :: nat am_env) cfg0 obj0 obj1.
         cfg_criterion cfg0 = ''alpha_H1'' \<and> solve env0 cfg0 obj0 = Inr obj1 \<and>
         cfg_alpha_rtol cfg0 < last (dat_error_alpha_L2 (am_dat obj1)) \<and>
         cfg_alpha_rtol cfg0 < last (dat_error_residual_F (am_dat obj1)) \<and>
         cfg_alpha_rtol cfg0 < last (dat_error_alpha_max (am_dat obj1)))"
proof (intro conjI)
  show "(cfg_criterion cfg = ''residual_u'' \<or> cfg_criterion cfg = ''alpha_H1'') \<and>
      solve env cfg obj = Inr obj' \<longrightarrow>
      (cfg_criterion cfg = ''residual_u'' \<longrightarrow>
         dat_error_residual_F (am_dat obj') \<noteq> [] \<and>
         last (dat_error_residual_F (am_dat obj')) \<le> cfg_alpha_rtol cfg) \<and>
      (cfg_criterion cfg = ''alpha_H1'' \<longrightarrow>
         dat_error_alpha_H1 (am_dat obj') \<noteq> [] \<and>
         last (dat_error_alpha_H1 (am_dat obj')) \<le> cfg_alpha_rtol cfg)"
    using am_loop_returns[of env cfg "[0..<nat (cfg_max_it cfg)]" None
        "obj\<lparr>am_dat := empty_data\<rparr>" obj']
    by (simp add: solve_def)
next
  let ?cfg = "\<lparr>cfg_max_it = 1, cfg_criterion = ''residual_u'', cfg_alpha_rtol = 1/2\<rparr>"
  have "\<exists>obj1. solve (sample_env [[1]] vec_norm []) ?cfg (sample_object 1) = Inr obj1 \<and>
         cfg_alpha_rtol ?cfg < last (dat_error_alpha_L2 (am_dat obj1)) \<and>
         cfg_alpha_rtol ?cfg < last (dat_error_alpha_H1 (am_dat obj1)) \<and>
         cfg_alpha_rtol ?cfg < last (dat_error_alpha_max (am_dat obj1))"
    by (simp add: sample_eval)
  then show "\<exists>(env0 :: nat am_env) cfg0 obj0 obj1.
         cfg_criterion cfg0 = ''residual_u'' \<and> solve env0 cfg0 obj0 = Inr obj1 \<and>
         cfg_alpha_rtol cfg0 < last (dat_error_alpha_L2 (am_dat obj1)) \<and>
         cfg_alpha_rtol cfg0 < last (dat_error_alpha_H1 (am_dat obj1)) \<and>
         cfg_alpha_rtol cfg0 < last (dat_error_alpha_max (am_dat obj1))"
    by (metis am_config.select_convs(2))
next
  let ?cfg = "\<lparr>cfg_max_it = 1, cfg_criterion = ''alpha_H1'', cfg_alpha_rtol = 1/2\<rparr>"
  have "\<exists>obj1. solve (sample_env [[1]] (\<lambda>v. 0) [1]) ?cfg (sample_object 1) = Inr obj1 \<and>
         cfg_alpha_rtol ?cfg < last (dat_error_alpha_L2 (am_dat obj1)) \<and>
         cfg_alpha_rtol ?cfg < last (dat_error_residual_F (am_dat obj1)) \<and>
         cfg_alpha_rtol ?cfg < last (dat_error_alpha_max (am_dat obj1))"
    by (simp add: sample_eval)
  then show "\<exists>(env0 :: nat am_env) cfg0 obj0 obj1.
         cfg_criterion cfg0 = ''alpha_H1'' \<and> solve env0 cfg0 obj0 = Inr obj1 \<and>
         cfg_alpha_rtol cfg0 < last (dat_error_alpha_L2 (am_dat obj1)) \<and>
         cfg_alpha_rtol cfg0 < last (dat_error_residual_F (am_dat obj1)) \<and>
         cfg_alpha_rtol cfg0 < last (dat_error_alpha_max (am_dat obj1))"
    by (metis am_config.select_convs(2))
qed

theorem stopping_criterion_satisfaction_witness:
  "\<exists>obj'. solve (sample_env [[1/2, 1/2], [1/5, 1/2]] vec_norm [])
            \<lparr>cfg_max_it = 5, cfg_criterion = ''alpha_H1'', cfg_alpha_rtol = 2/5\<rparr>
            (sample_object 2) = Inr obj'
        \<and> dat_error_alpha_H1 (am_dat obj') = [sqrt (1/2), 3/10]
        \<and> last (dat_error_alpha_H1 (am_dat obj')) \<le> 2/5"
proof -
  let ?env = "sample_env [[1/2, 1/2], [1/5, 1/2]] vec_norm []"
  let ?cfg = "\<lparr>cfg_max_it = 5, cfg_criterion = ''alpha_H1'', cfg_alpha_rtol = 2/5\<rparr>"
  have "\<exists>obj'. solve ?env ?cfg (sample_object 2) = Inr obj'
          \<and> dat_error_alpha_H1 (am_dat obj') = [sqrt (1/2), 3/10]"
    by (simp add: sample_eval upt_conv_Cons numeral_2_eq_2 sqrt_half_gt sqrt_9_100)
  then obtain obj' where r: "solve ?env ?cfg (sample_object 2) = Inr obj'"
    and h: "dat_error_alpha_H1 (am_dat obj') = [sqrt (1/2), 3/10]"
    by blast
  from stopping_criterion_satisfaction[THEN conjunct1, of ?cfg ?env "sample_object 2" obj'] r
  have "last (dat_error_alpha_H1 (am_dat obj')) \<le> 2/5" by simp
  with r h show ?thesis by blast
qed

text \<open>
  Claim C2, evaluated on a run that cannot converge with \<open>max_it = 1\<close>: the loop makes
  one pass, every diagnostic list holds one entry, and the error raised holds the last
  H1 error together with the number 0, the index of the last pass, where the claim has
  the iteration count, 1.
\<close>

theorem nonconvergence_reports_last_index:
  "\<exists>obj'. solve (sample_env [[1]] vec_norm [])
            \<lparr>cfg_max_it = 1, cfg_criterion = ''alpha_H1'', cfg_alpha_rtol = 1 / 10 ^ 4\<rparr>
            (sample_object 1) = Inl (RuntimeError 0 1, obj')
        \<and> dat_iteration (am_dat obj') = [0]
        \<and> dat_error_alpha_H1 (am_dat obj') = [1]
        \<and> all_lists_length (am_dat obj') 1"
  by (simp add: sample_eval all_lists_length_def)

text \<open>
  What is recorded as \<open>error_alpha_max\<close> is the largest entry of the increment; it is
  the max-norm when no entry of the increment is negative.
\<close>

lemma am_iteration_error_alpha_max:
  assumes "am_iteration env it obj = (obj', eF, eH1)"
  shows "dat_error_alpha_max (am_dat obj') =
           dat_error_alpha_max (am_dat obj) @
             [vec_max (alpha_increment (am_alpha obj') (am_alpha_old obj))]"
  using assms
  by (auto simp: am_iteration_def Let_def split: prod.splits)

lemma vec_max_nonneg:
  assumes "x \<noteq> []" and "\<forall>a\<in>set x. 0 \<le> a"
  shows "vec_max x = max_norm x"
proof -
  from assms(1) obtain x0 xs where x: "x = x0 # xs" by (cases x) auto
  from assms(2) have "map abs x = x" by (simp add: map_idI)
  moreover from assms(2) x have "max x0 0 = x0" by simp
  ultimately show ?thesis
    by (simp add: vec_max_def max_norm_def x)
qed

text \<open>
  Claim C8, evaluated on a run of two passes in which the damage of the first cell
  decreases in the second pass, from \<open>1/2\<close> to \<open>1/5\<close>: the values recorded as
  \<open>error_alpha_max\<close> are \<open>1/2\<close> and \<open>0\<close>, the largest entries of the two
  increments, where their max-norms are \<open>1/2\<close> and \<open>3/10\<close>.
\<close>

theorem error_alpha_max_is_signed_maximum:
  "\<exists>obj'. solve (sample_env [[1/2, 1/2], [1/5, 1/2]] vec_norm [])
            \<lparr>cfg_max_it = 5, cfg_criterion = ''alpha_H1'', cfg_alpha_rtol = 2/5\<rparr>
            (sample_object 2) = Inr obj'
        \<and> am_alpha obj' = [1/5, 1/2]
        \<and> dat_error_alpha_max (am_dat obj') = [1/2, 0]
        \<and> map max_norm [alpha_increment [1/2, 1/2] [0, 0],
                         alpha_increment [1/5, 1/2] [1/2, 1/2]] = [1/2, 3/10]"
  by (simp add: sample_eval max_norm_def upt_conv_Cons numeral_2_eq_2 sqrt_half_gt sqrt_9_100)

subsection \<open>The load loop\<close>

text \<open>What one load step and a run of load steps do to each variable of the driver.\<close>

lemma homogeneous_state_fields:
  "st_alpha (homogeneous_state pm st t mp) =
     fst (if t \<le> critical_load pm then elastic_branch t mp
          else damaging_branch (critical_load pm) t mp)"
  "st_u (homogeneous_state pm st t mp) =
     snd (if t \<le> critical_load pm then elastic_branch t mp
          else damaging_branch (critical_load pm) t mp)"
  by (simp_all add: homogeneous_state_def Let_def split: prod.splits)

lemma load_step_frame:
  "drv_alpha_lb (load_step orc pm d t) = drv_alpha_lb d"
  "drv_alpha_ub (load_step orc pm d t) = drv_alpha_ub d"
  "drv_state (load_step orc pm d t) = homogeneous_state pm (drv_state d) t pm"
  "drv_calls (load_step orc pm d t) = drv_calls d @
     [Call_homogeneous_state t, Call_stability_solve, Call_stability_is_elastic,
      Call_stability_get_inertia, Call_cone_my_solve]"
  by (simp_all add: load_step_def Let_def split: prod.splits)

lemma load_step_history:
  "hist_load (drv_history (load_step orc pm d t)) = hist_load (drv_history d) @ [t]"
  "hist_alpha_t (drv_history (load_step orc pm d t)) =
     hist_alpha_t (drv_history d) @ [st_alpha (homogeneous_state pm (drv_state d) t pm)]"
  "hist_u_t (drv_history (load_step orc pm d t)) =
     hist_u_t (drv_history d) @ [st_u (homogeneous_state pm (drv_state d) t pm)]"
  "history_lengths (drv_history d) n \<Longrightarrow>
     history_lengths (drv_history (load_step orc pm d t)) (Suc n)"
  by (simp_all add: load_step_def history_lengths_def Let_def split: prod.splits)

lemma load_step_energy:
  "\<exists>e f. hist_elastic_energy (drv_history (load_step orc pm d t)) =
            hist_elastic_energy (drv_history d) @ [e]
        \<and> hist_fracture_energy (drv_history (load_step orc pm d t)) =
            hist_fracture_energy (drv_history d) @ [f]
        \<and> hist_total_energy (drv_history (load_step orc pm d t)) =
            hist_total_energy (drv_history d) @ [e + f]"
  by (simp add: load_step_def Let_def split: prod.splits)

lemma run_loads_frame:
  "drv_alpha_lb (run_loads orc pm d ts) = drv_alpha_lb d"
  "drv_alpha_ub (run_loads orc pm d ts) = drv_alpha_ub d"
  by (induction ts arbitrary: d) (simp_all add: load_step_frame)

lemma run_loads_calls:
  "drv_calls (run_loads orc pm d ts) = drv_calls d @
     concat (map (\<lambda>t. [Call_homogeneous_state t, Call_stability_solve,
       Call_stability_is_elastic, Call_stability_get_inertia, Call_cone_my_solve]) ts)"
  by (induction ts arbitrary: d) (simp_all add: load_step_frame)

lemma run_loads_history:
  "hist_load (drv_history (run_loads orc pm d ts)) = hist_load (drv_history d) @ ts"
  "hist_alpha_t (drv_history (run_loads orc pm d ts)) =
     hist_alpha_t (drv_history d) @
     map (\<lambda>t. fst (if t \<le> critical_load pm then elastic_branch t pm
                   else damaging_branch (critical_load pm) t pm)) ts"
  "hist_u_t (drv_history (run_loads orc pm d ts)) =
     hist_u_t (drv_history d) @
     map (\<lambda>t. snd (if t \<le> critical_load pm then elastic_branch t pm
                   else damaging_branch (critical_load pm) t pm)) ts"
  by (induction ts arbitrary: d)
    (simp_all add: load_step_history homogeneous_state_fields)

lemma run_loads_lengths:
  "history_lengths (drv_history d) n \<Longrightarrow>
     history_lengths (drv_history (run_loads orc pm d ts)) (n + length ts)"
proof (induction ts arbitrary: d n)
  case Nil
  then show ?case by simp
next
  case (Cons t ts)
  from Cons.IH[OF load_step_history(4)[OF Cons.prems]] show ?case by simp
qed

lemma run_loads_state:
  "drv_state (run_loads orc pm d (ts @ [t])) =
     homogeneous_state pm (drv_state (run_loads orc pm d ts)) t pm"
  by (induction ts arbitrary: d) (simp_all add: load_step_frame)

lemma run_loads_energy:
  assumes "hist_total_energy (drv_history d) =
             map2 (+) (hist_elastic_energy (drv_history d)) (hist_fracture_energy (drv_history d))"
    and "length (hist_elastic_energy (drv_history d)) = length (hist_fracture_energy (drv_history d))"
  shows "hist_total_energy (drv_history (run_loads orc pm d ts)) =
           map2 (+) (hist_elastic_energy (drv_history (run_loads orc pm d ts)))
                    (hist_fracture_energy (drv_history (run_loads orc pm d ts)))
       \<and> length (hist_elastic_energy (drv_history (run_loads orc pm d ts))) =
           length (hist_fracture_energy (drv_history (run_loads orc pm d ts)))"
  using assms
proof (induction ts arbitrary: d)
  case Nil
  then show ?case by simp
next
  case (Cons t ts)
  obtain e f where
    s: "hist_elastic_energy (drv_history (load_step orc pm d t)) =
            hist_elastic_energy (drv_history d) @ [e]"
       "hist_fracture_energy (drv_history (load_step orc pm d t)) =
            hist_fracture_energy (drv_history d) @ [f]"
       "hist_total_energy (drv_history (load_step orc pm d t)) =
            hist_total_energy (drv_history d) @ [e + f]"
    using load_step_energy by blast
  have "hist_total_energy (drv_history (run_loads orc pm (load_step orc pm d t) ts)) =
           map2 (+) (hist_elastic_energy (drv_history (run_loads orc pm (load_step orc pm d t) ts)))
                    (hist_fracture_energy (drv_history (run_loads orc pm (load_step orc pm d t) ts)))
       \<and> length (hist_elastic_energy (drv_history (run_loads orc pm (load_step orc pm d t) ts))) =
           length (hist_fracture_energy (drv_history (run_loads orc pm (load_step orc pm d t) ts)))"
    by (rule Cons.IH) (simp_all add: s Cons.prems)
  then show ?case by simp
qed

lemma run_loads_append:
  "run_loads orc pm d (ts1 @ ts2) = run_loads orc pm (run_loads orc pm d ts1) ts2"
  by (induction ts1 arbitrary: d) simp_all

lemma initial_history:
  "drv_history (initial_driver pm w0) = empty_history"
  "history_lengths empty_history 0"
  "hist_load empty_history = []" "hist_alpha_t empty_history = []" "hist_u_t empty_history = []"
  "hist_total_energy empty_history = []" "hist_elastic_energy empty_history = []"
  "hist_fracture_energy empty_history = []"
  by (simp_all add: initial_driver_def empty_history_def history_lengths_def)

lemma length_linspace: "length (linspace a b n) = n"
  by (simp add: linspace_def)

lemma length_discrete_atk_loads: "length (discrete_atk_loads load_min arg_N) = 30"
  by (simp add: discrete_atk_loads_def length_linspace)

lemma last_linspace: "2 \<le> n \<Longrightarrow> last (linspace a b n) = b"
  by (simp add: linspace_def last_list_update)

text \<open>
  Claim C7. After the driver has run over a load sequence \<open>t\<^sub>1, \<dots>, t\<^sub>n\<close> (ascending or
  not), every list of the history has exactly \<open>n\<close> entries and the list of loads is
  \<open>t\<^sub>1, \<dots>, t\<^sub>n\<close> in that order; running further loads leaves the entries already
  there in place and appends the new ones. For \<open>discrete_atk\<close> the sequence is the 30
  samples of \<open>linspace\<close>.
\<close>

theorem history_append_only:
  "history_lengths (drv_history (run_loads orc pm (initial_driver pm w0) loads)) (length loads)
   \<and> hist_load (drv_history (run_loads orc pm (initial_driver pm w0) loads)) = loads
   \<and> hist_load (drv_history (run_loads orc pm d (ts1 @ ts2))) =
       hist_load (drv_history (run_loads orc pm d ts1)) @ ts2
   \<and> history_lengths (drv_history (discrete_atk orc load_min w0 arg_N)) 30
   \<and> hist_load (drv_history (discrete_atk orc load_min w0 arg_N)) =
       discrete_atk_loads load_min arg_N"
proof -
  have len: "history_lengths (drv_history (run_loads orc pm' (initial_driver pm' w0) ts)) (length ts)"
    for pm' ts
    using run_loads_lengths[of "initial_driver pm' w0" 0 orc pm' ts]
    by (simp add: initial_history)
  have lds: "hist_load (drv_history (run_loads orc pm' (initial_driver pm' w0) ts)) = ts"
    for pm' ts
    by (simp add: run_loads_history initial_history)
  have app: "hist_load (drv_history (run_loads orc pm d (ts1 @ ts2))) =
       hist_load (drv_history (run_loads orc pm d ts1)) @ ts2"
    by (simp add: run_loads_append run_loads_history)
  from len[of "discrete_atk_model arg_N" "discrete_atk_loads load_min arg_N"]
  have "history_lengths (drv_history (discrete_atk orc load_min w0 arg_N)) 30"
    by (simp add: discrete_atk_def length_discrete_atk_loads)
  with len lds app show ?thesis by (simp add: discrete_atk_def)
qed

text \<open>
  Claim C9. The lower bound \<open>alpha_lb\<close> is zero at every degree of freedom after the
  set-up, no load step changes it, and so it is still zero after any number of steps and
  at the end of \<open>discrete_atk\<close>, where the damage itself has reached 1 in every cell:
  the bound is not raised to the damage reached.
\<close>

theorem alpha_lb_never_changes:
  "drv_alpha_lb (initial_driver pm w0) = replicate (par_N pm) 0
   \<and> drv_alpha_lb (load_step orc pm d t) = drv_alpha_lb d
   \<and> drv_alpha_lb (run_loads orc pm (initial_driver pm w0) loads) = replicate (par_N pm) 0
   \<and> drv_alpha_lb (discrete_atk orc load_min w0 arg_N) = replicate arg_N 0
   \<and> st_alpha (drv_state (discrete_atk orc load_min w0 arg_N)) = replicate arg_N 1"
proof -
  have i: "drv_alpha_lb (initial_driver pm' w0) = replicate (par_N pm') 0" for pm'
    by (simp add: initial_driver_def)
  have n: "par_N (discrete_atk_model arg_N) = arg_N"
    by (simp add: discrete_atk_model_def)
  let ?pm = "discrete_atk_model arg_N"
  let ?ls = "discrete_atk_loads load_min arg_N"
  have ne: "?ls \<noteq> []"
    using length_discrete_atk_loads[of load_min arg_N] by auto
  have l: "last ?ls = 4"
    by (simp add: discrete_atk_loads_def last_linspace discrete_atk_model_def)
  from ne l obtain bs where dec: "?ls = bs @ [4]"
    by (metis append_butlast_last_id)
  have "st_alpha (drv_state (discrete_atk orc load_min w0 arg_N)) =
      st_alpha (homogeneous_state ?pm
        (drv_state (run_loads orc ?pm (initial_driver ?pm w0) bs)) 4 ?pm)"
    by (simp add: discrete_atk_def dec run_loads_state)
  also have "\<dots> = replicate arg_N 1"
    by (simp add: homogeneous_state_fields critical_load_discrete_atk_model
        damaging_branch_def Let_def n map_replicate_const)
      (simp add: discrete_atk_model_def)
  finally show ?thesis
    by (simp add: i n run_loads_frame load_step_frame discrete_atk_def)
qed

text \<open>
  Claim C6. In the run of \<open>discrete_atk\<close> the solver calls are the construction of the
  alternate minimisation object followed, for each load, by the homogeneous state setter
  and the two stability solvers; \<open>solve\<close> of the alternate minimisation is never
  called. The state after a load step is the one \<open>homogeneous_state\<close> prescribes, and
  the damage and displacement recorded for each load are those of the elastic branch
  for loads up to the critical load and of the damaging branch above it.
\<close>

theorem homogeneous_driver_bypasses_solve:
  "Call_AM_solve \<notin> set (drv_calls (discrete_atk orc load_min w0 arg_N))
   \<and> drv_calls (discrete_atk orc load_min w0 arg_N) =
       Call_AM_init # concat (map (\<lambda>t. [Call_homogeneous_state t, Call_stability_solve,
          Call_stability_is_elastic, Call_stability_get_inertia, Call_cone_my_solve])
          (discrete_atk_loads load_min arg_N))
   \<and> drv_state (load_step orc pm d t) = homogeneous_state pm (drv_state d) t pm
   \<and> hist_alpha_t (drv_history (discrete_atk orc load_min w0 arg_N)) =
       map (\<lambda>t. fst (if t \<le> critical_load (discrete_atk_model arg_N)
                     then elastic_branch t (discrete_atk_model arg_N)
                     else damaging_branch (critical_load (discrete_atk_model arg_N)) t
                            (discrete_atk_model arg_N)))
         (discrete_atk_loads load_min arg_N)
   \<and> hist_u_t (drv_history (discrete_atk orc load_min w0 arg_N)) =
       map (\<lambda>t. snd (if t \<le> critical_load (discrete_atk_model arg_N)
                     then elastic_branch t (discrete_atk_model arg_N)
                     else damaging_branch (critical_load (discrete_atk_model arg_N)) t
                            (discrete_atk_model arg_N)))
         (discrete_atk_loads load_min arg_N)"
proof -
  have c: "drv_calls (discrete_atk orc load_min w0 arg_N) =
       Call_AM_init # concat (map (\<lambda>t. [Call_homogeneous_state t, Call_stability_solve,
          Call_stability_is_elastic, Call_stability_get_inertia, Call_cone_my_solve])
          (discrete_atk_loads load_min arg_N))"
    by (simp add: discrete_atk_def run_loads_calls initial_driver_def)
  have "Call_AM_solve \<notin> set (drv_calls (discrete_atk orc load_min w0 arg_N))"
    unfolding c by auto
  with c show ?thesis
    by (simp add: discrete_atk_def run_loads_history initial_history load_step_frame)
qed

text \<open>
  Claim C4. For each of the 30 load steps, the total energy recorded equals the elastic
  energy recorded plus the fracture energy recorded for that step; hence the two differ
  by at most \<open>10\<^sup>-\<^sup>1\<^sup>0\<close> relative.
\<close>

theorem energy_accounting:
  "\<forall>i<30.
     hist_total_energy (drv_history (discrete_atk orc load_min w0 arg_N)) ! i =
       hist_elastic_energy (drv_history (discrete_atk orc load_min w0 arg_N)) ! i
       + hist_fracture_energy (drv_history (discrete_atk orc load_min w0 arg_N)) ! i
     \<and> \<bar>hist_total_energy (drv_history (discrete_atk orc load_min w0 arg_N)) ! i
         - (hist_elastic_energy (drv_history (discrete_atk orc load_min w0 arg_N)) ! i
            + hist_fracture_energy (drv_history (discrete_atk orc load_min w0 arg_N)) ! i)\<bar>
       \<le> 1 / 10 ^ 10 *
           \<bar>hist_elastic_energy (drv_history (discrete_atk orc load_min w0 arg_N)) ! i
            + hist_fracture_energy (drv_history (discrete_atk orc load_min w0 arg_N)) ! i\<bar>"
proof (intro allI impI)
  fix i :: nat assume i: "i < 30"
  let ?h = "drv_history (discrete_atk orc load_min w0 arg_N)"
  let ?pm = "discrete_atk_model arg_N"
  have len: "history_lengths ?h 30"
    using run_loads_lengths[of "initial_driver ?pm w0" 0 orc ?pm "discrete_atk_loads load_min arg_N"]
    by (simp add: initial_history discrete_atk_def length_discrete_atk_loads)
  have "hist_total_energy ?h = map2 (+) (hist_elastic_energy ?h) (hist_fracture_energy ?h)"
    unfolding discrete_atk_def
    using run_loads_energy[of "initial_driver ?pm w0" orc ?pm "discrete_atk_loads load_min arg_N"]
    by (simp add: initial_history)
  moreover from len i have "i < length (hist_elastic_energy ?h)" "i < length (hist_fracture_energy ?h)"
    by (simp_all add: history_lengths_def)
  ultimately have "hist_total_energy ?h ! i = hist_elastic_energy ?h ! i + hist_fracture_energy ?h ! i"
    by simp
  then show "hist_total_energy ?h ! i = hist_elastic_energy ?h ! i + hist_fracture_energy ?h ! i
     \<and> \<bar>hist_total_energy ?h ! i - (hist_elastic_energy ?h ! i + hist_fracture_energy ?h ! i)\<bar>
       \<le> 1 / 10 ^ 10 * \<bar>hist_elastic_energy ?h ! i + hist_fracture_energy ?h ! i\<bar>"
    by simp
qed

theorem energy_accounting_witness:
  "(0::nat) < 30
   \<and> hist_total_energy (drv_history (discrete_atk sample_oracles 0 () 2)) ! 0 =
       hist_elastic_energy (drv_history (discrete_atk sample_oracles 0 () 2)) ! 0
       + hist_fracture_energy (drv_history (discrete_atk sample_oracles 0 () 2)) ! 0"
  using energy_accounting[of sample_oracles 0 "()" 2] by simp

subsection \<open>The loads of the run and the prescribed damage\<close>

lemma prescribed_damage:
  "j < arg_N \<Longrightarrow>
   fst (if t \<le> critical_load (discrete_atk_model arg_N)
        then elastic_branch t (discrete_atk_model arg_N)
        else damaging_branch (critical_load (discrete_atk_model arg_N)) t
               (discrete_atk_model arg_N)) ! j =
   (if t \<le> 1 then 0 else (t - 1) / 3)"
  by (simp add: critical_load_discrete_atk_model elastic_branch_def damaging_branch_def Let_def)
    (simp add: discrete_atk_model_def)

lemma nth_discrete_atk_loads:
  assumes "i < 30"
  shows "discrete_atk_loads load_min arg_N ! i =
           (if i = 29 then 4 else real i * ((4 - load_min) / 29) + load_min)"
  using assms
  by (simp add: discrete_atk_loads_def linspace_def discrete_atk_model_def nth_list_update)

lemma discrete_atk_loads_le:
  assumes "i < 30" and "load_min \<le> 4"
  shows "discrete_atk_loads load_min arg_N ! i \<le> 4"
proof (cases "i = 29")
  case True
  with assms show ?thesis by (simp add: nth_discrete_atk_loads)
next
  case False
  with assms have "real i \<le> 29" by simp
  then have "real i * ((4 - load_min) / 29) \<le> 29 * ((4 - load_min) / 29)"
    using assms(2) by (intro mult_right_mono) simp_all
  then show ?thesis using assms False by (simp add: nth_discrete_atk_loads)
qed

lemma discrete_atk_loads_eq_max:
  assumes "i < 30" and "load_min < 4"
  shows "discrete_atk_loads load_min arg_N ! i = 4 \<longleftrightarrow> i = 29"
proof (cases "i = 29")
  case True
  with assms show ?thesis by (simp add: nth_discrete_atk_loads)
next
  case False
  with assms have "real i \<le> 28" by simp
  then have "real i * ((4 - load_min) / 29) \<le> 28 * ((4 - load_min) / 29)"
    using assms(2) by (intro mult_right_mono) simp_all
  also have "\<dots> < 4 - load_min" using assms(2) by simp
  finally show ?thesis using assms False by (simp add: nth_discrete_atk_loads)
qed

text \<open>
  Claim C5. With \<open>loading.min \<le> 4\<close>, at each of the 30 loads and each damage cell the
  damage set for the step lies between \<open>alpha_lb = 0\<close> and \<open>alpha_ub = 1\<close>; it is 1
  exactly when the load is \<open>k = 4\<close>, which for \<open>loading.min < 4\<close> is the last load only.
\<close>

theorem bound_invariant_homogeneous:
  assumes "load_min \<le> 4"
  shows "drv_alpha_lb (discrete_atk orc load_min w0 arg_N) = replicate arg_N 0
   \<and> drv_alpha_ub (discrete_atk orc load_min w0 arg_N) = replicate arg_N 1
   \<and> (\<forall>i<30. \<forall>j<arg_N.
        drv_alpha_lb (discrete_atk orc load_min w0 arg_N) ! j
          \<le> hist_alpha_t (drv_history (discrete_atk orc load_min w0 arg_N)) ! i ! j
      \<and> hist_alpha_t (drv_history (discrete_atk orc load_min w0 arg_N)) ! i ! j
          \<le> drv_alpha_ub (discrete_atk orc load_min w0 arg_N) ! j
      \<and> (hist_alpha_t (drv_history (discrete_atk orc load_min w0 arg_N)) ! i ! j = 1
           \<longleftrightarrow> hist_load (drv_history (discrete_atk orc load_min w0 arg_N)) ! i = 4)
      \<and> (load_min < 4 \<longrightarrow>
           (hist_load (drv_history (discrete_atk orc load_min w0 arg_N)) ! i = 4
              \<longleftrightarrow> i = 29)))"
proof -
  let ?D = "discrete_atk orc load_min w0 arg_N"
  let ?pm = "discrete_atk_model arg_N"
  let ?ls = "discrete_atk_loads load_min arg_N"
  have n: "par_N ?pm = arg_N" by (simp add: discrete_atk_model_def)
  have lb: "drv_alpha_lb ?D = replicate arg_N 0"
    by (simp add: discrete_atk_def run_loads_frame initial_driver_def n)
  have ub: "drv_alpha_ub ?D = replicate arg_N 1"
    by (simp add: discrete_atk_def run_loads_frame initial_driver_def n)
  have ld: "hist_load (drv_history ?D) = ?ls"
    by (simp add: discrete_atk_def run_loads_history initial_history)
  have al: "hist_alpha_t (drv_history ?D) ! i ! j =
              (if ?ls ! i \<le> 1 then 0 else (?ls ! i - 1) / 3)"
    if "i < 30" "j < arg_N" for i j
    using that
    by (simp add: discrete_atk_def run_loads_history initial_history
        length_discrete_atk_loads prescribed_damage)
  have "drv_alpha_lb ?D ! j \<le> hist_alpha_t (drv_history ?D) ! i ! j
      \<and> hist_alpha_t (drv_history ?D) ! i ! j \<le> drv_alpha_ub ?D ! j
      \<and> (hist_alpha_t (drv_history ?D) ! i ! j = 1 \<longleftrightarrow> hist_load (drv_history ?D) ! i = 4)
      \<and> (load_min < 4 \<longrightarrow> (hist_load (drv_history ?D) ! i = 4 \<longleftrightarrow> i = 29))"
    if "i < 30" "j < arg_N" for i j
  proof -
    have le: "?ls ! i \<le> 4" using that(1) assms by (rule discrete_atk_loads_le)
    have "load_min < 4 \<longrightarrow> (?ls ! i = 4 \<longleftrightarrow> i = 29)"
      using that(1) discrete_atk_loads_eq_max by blast
    with le show ?thesis
      using that by (simp add: al lb ub ld)
  qed
  with lb ub show ?thesis by blast
qed

theorem bound_invariant_homogeneous_witness:
  "(0::real) \<le> 4 \<and> (29::nat) < 30 \<and> (1::nat) < 2
   \<and> drv_alpha_lb (discrete_atk sample_oracles 0 () 2) ! 1
        \<le> hist_alpha_t (drv_history (discrete_atk sample_oracles 0 () 2)) ! 29 ! 1
   \<and> hist_alpha_t (drv_history (discrete_atk sample_oracles 0 () 2)) ! 29 ! 1
        \<le> drv_alpha_ub (discrete_atk sample_oracles 0 () 2) ! 1"
proof -
  have h: "(0::real) \<le> 4" by simp
  from bound_invariant_homogeneous[OF h, of sample_oracles "()" 2,
      THEN conjunct2, THEN conjunct2, rule_format, of 29 1]
  show ?thesis by simp
qed

subsection \<open>The state at the critical load\<close>









end
